theory Spec2Isabelle
  imports Main "HOL-Library.Word" "HOL-Library.Char_ord" "HOL-Library.List_Lexorder"
begin

section \<open>Connections, errors and abnormal endings\<close>

text \<open>
  The pool of \<^verbatim>\<open>pool.go\<close> is modelled as it runs in one goroutine: every operation
  takes the pool and returns its result with the updated pool. A \<^verbatim>\<open>*conn\<close> that
  is not nil is the address of the connection, a natural number; a \<^verbatim>\<open>*conn\<close> that may
  be nil is a \<open>conn option\<close>, nil being \<open>None\<close>. A Go \<^verbatim>\<open>error\<close> that may be nil is an
  \<open>error option\<close>.
\<close>

type_synonym conn = nat

datatype error =
    errClosed                \<comment> \<open>\<^verbatim>\<open>errors.New("redis: client is closed")\<close>\<close>
  | errPoolTimeout           \<comment> \<open>\<^verbatim>\<open>errors.New("redis: connection pool timeout")\<close>\<close>
  | errTooFast string        \<comment> \<open>the rate limiter's refusal in \<^verbatim>\<open>new\<close>, with the last error\<close>
  | errUnread string         \<comment> \<open>\<^verbatim>\<open>Put\<close>'s error, with the unread bytes\<close>
  | errSticky                \<comment> \<open>\<^verbatim>\<open>errors.New("redis: sticky not reusable connection")\<close>\<close>
  | errExt string            \<comment> \<open>an error of the dialer or of \<^verbatim>\<open>cn.Close\<close>, with its text\<close>

text \<open>
  A call that does not return: a panic (with its message), or a send that blocks for
  ever on the full channel of the free stack.
\<close>

datatype fault = Panic string | Blocked

text \<open>
  \<^verbatim>\<open>fmt\<close>'s verb \<^verbatim>\<open>%q\<close> writes a string between double quotes; the escapes it adds for
  quotes, backslashes and bytes that do not print are left out.
\<close>

definition quoted :: "string \<Rightarrow> string" where
  "quoted b = [CHR 0x22] @ b @ [CHR 0x22]"

fun Error :: "error \<Rightarrow> string" where
  "Error errClosed = ''redis: client is closed''"
| "Error errPoolTimeout = ''redis: connection pool timeout''"
| "Error (errTooFast l) =
     ''redis: you open connections too fast (last_error='' @ quoted l @ '')''"
| "Error (errUnread b) = ''connection has unread data: '' @ quoted b"
| "Error errSticky = ''redis: sticky not reusable connection''"
| "Error (errExt m) = m"

section \<open>The pool\<close>

text \<open>
  One record holds the fields of \<^verbatim>\<open>connPool\<close>, with those of its \<^verbatim>\<open>connList\<close>
  (\<open>conns_cns\<close>, \<open>conns_size\<close>, \<open>conns_max\<close>) and of its \<^verbatim>\<open>connStack\<close>
  (\<open>free_cns\<close>, \<open>free_cap\<close>) side by side, and what the pool reads from outside:
  \<^item> \<open>dialer\<close>: the outcome of the \<open>n\<close>-th call of the dialer, \<open>None\<close> for a new
    connection (which gets the next unused address, \<open>nextptr\<close>) or the dial error;
    \<open>ndial\<close> counts the calls;
  \<^item> \<open>rl\<close>: the answer of the \<open>n\<close>-th call of \<^verbatim>\<open>rl.Limit()\<close>, \<open>nlimit\<close> counts the calls;
  \<^item> \<open>IdleTimeout\<close>: \<^verbatim>\<open>opt.getIdleTimeout()\<close>; \<open>now\<close>: the clock; \<open>UsedAt\<close>: the field
    of each connection;
  \<^item> \<open>rd\<close>: the bytes buffered and unread in each connection's reader;
  \<^item> \<open>closeErr\<close>: what \<^verbatim>\<open>cn.Close()\<close> returns for each connection, \<open>closedConns\<close>:
    the connections it has been called on;
  \<^item> \<open>logs\<close>: the lines written to \<^verbatim>\<open>Logger\<close>.

  \<open>conns_cns\<close> is the map of the registry, \<open>None\<close> once it is nil. \<open>conns_size\<close>
  and \<open>conns_max\<close> are \<^verbatim>\<open>int32\<close>, kept as integers with the wrap-around written
  out (\<open>wrap32\<close>). The free stack is the slice \<open>free_cns\<close>, its top last; the
  channel \<^verbatim>\<open>free\<close> holds one token per element of the slice, so its length is the
  slice's and its capacity is \<open>free_cap\<close>. The counters of \<^verbatim>\<open>PoolStats\<close> are
  \<^verbatim>\<open>uint32\<close>.
\<close>

record connPool =
  dialer :: "nat \<Rightarrow> error option"
  ndial :: nat
  nextptr :: nat
  rl :: "nat \<Rightarrow> bool"
  nlimit :: nat
  IdleTimeout :: int
  conns_cns :: "conn set option"
  conns_size :: int
  conns_max :: int
  free_cns :: "conn list"
  free_cap :: nat
  Requests :: "32 word"
  Hits :: "32 word"
  Waits :: "32 word"
  Timeouts :: "32 word"
  closed_flag :: bool
  lastErr :: "string option"
  now :: int
  UsedAt :: "conn \<Rightarrow> int"
  rd :: "conn \<Rightarrow> string"
  closeErr :: "conn \<Rightarrow> error option"
  closedConns :: "conn set"
  logs :: "string list"

record PoolStats =
  st_Requests :: "32 word"
  st_Hits :: "32 word"
  st_Waits :: "32 word"
  st_Timeouts :: "32 word"
  st_TotalConns :: "32 word"
  st_FreeConns :: "32 word"

definition wrap32 :: "int \<Rightarrow> int" where
  "wrap32 x = (x + 2147483648) mod 4294967296 - 2147483648"

subsection \<open>connStack\<close>

definition stack_Len :: "connPool \<Rightarrow> int" where
  "stack_Len s = int (length (free_cns s))"

text \<open>
  \<^verbatim>\<open>Push\<close> appends to the slice and sends on the channel; the send returns at once
  when the channel has room and never otherwise (nothing else receives).
\<close>

definition Push :: "conn \<Rightarrow> connPool \<Rightarrow> fault + connPool" where
  "Push cn s =
     (if length (free_cns s) < free_cap s
      then Inr (s\<lparr>free_cns := free_cns s @ [cn]\<rparr>)
      else Inl Blocked)"

definition pop :: "connPool \<Rightarrow> conn \<times> connPool" where
  "pop s = (last (free_cns s), s\<lparr>free_cns := butlast (free_cns s)\<rparr>)"

definition Pop :: "connPool \<Rightarrow> conn option \<times> connPool" where
  "Pop s =
     (if free_cns s \<noteq> [] then (case pop s of (cn, s') \<Rightarrow> (Some cn, s'))
      else (None, s))"

text \<open>
  \<^verbatim>\<open>PopWithTimeout\<close>: with nothing else running, no token arrives while the caller
  waits, so the wait on an empty stack ends at the timeout.
\<close>

definition PopWithTimeout :: "connPool \<Rightarrow> conn option \<times> connPool" where
  "PopWithTimeout s =
     (if free_cns s \<noteq> [] then (case pop s of (cn, s') \<Rightarrow> (Some cn, s'))
      else (None, s))"

subsection \<open>connList\<close>

definition list_Len :: "connPool \<Rightarrow> int" where
  "list_Len s = conns_size s"

definition Reserve :: "connPool \<Rightarrow> bool \<times> connPool" where
  "Reserve s =
     (let size = wrap32 (conns_size s + 1);
          reserved = (size \<le> conns_max s)
      in if \<not> reserved then (reserved, s\<lparr>conns_size := wrap32 (size - 1)\<rparr>)
         else (reserved, s\<lparr>conns_size := size\<rparr>))"

text \<open>An assignment to an entry of a nil map panics.\<close>

definition Add :: "conn \<Rightarrow> connPool \<Rightarrow> fault + connPool" where
  "Add cn s =
     (case conns_cns s of
        None \<Rightarrow> Inl (Panic ''assignment to entry in nil map'')
      | Some m \<Rightarrow> Inr (s\<lparr>conns_cns := Some (insert cn m)\<rparr>))"

definition cn_Close :: "conn \<Rightarrow> connPool \<Rightarrow> error option \<times> connPool" where
  "cn_Close cn s = (closeErr s cn, s\<lparr>closedConns := insert cn (closedConns s)\<rparr>)"

definition list_closed :: "connPool \<Rightarrow> bool" where
  "list_closed s = (conns_cns s = None)"

definition has_conn :: "connPool \<Rightarrow> conn \<Rightarrow> bool" where
  "has_conn s cn = (case conns_cns s of None \<Rightarrow> False | Some m \<Rightarrow> cn \<in> m)"

definition delete_conn :: "conn \<Rightarrow> connPool \<Rightarrow> connPool" where
  "delete_conn cn s = s\<lparr>conns_cns := map_option (\<lambda>m. m - {cn}) (conns_cns s)\<rparr>"

definition list_Remove :: "conn option \<Rightarrow> connPool \<Rightarrow> fault + (error option \<times> connPool)" where
  "list_Remove cn s =
     (case cn of
        None \<Rightarrow> Inr (None, s\<lparr>conns_size := wrap32 (conns_size s - 1)\<rparr>)
      | Some c \<Rightarrow>
          if has_conn s c
          then (let s1 = delete_conn c s;
                    s2 = s1\<lparr>conns_size := wrap32 (conns_size s1 - 1)\<rparr>
                in Inr (cn_Close c s2))
          else if list_closed s then Inr (None, s)
          else Inl (Panic ''conn not found in the list''))"

text \<open>\<^verbatim>\<open>_, ok := l.cns[cn]\<close>: the key when it is in the map (nil never is).\<close>

definition lookup_conn :: "connPool \<Rightarrow> conn option \<Rightarrow> conn option" where
  "lookup_conn s cn =
     (case cn of None \<Rightarrow> None | Some c \<Rightarrow> if has_conn s c then Some c else None)"

definition list_Replace :: "conn option \<Rightarrow> conn \<Rightarrow> connPool \<Rightarrow> fault + (error option \<times> connPool)" where
  "list_Replace cn newcn s =
     (case lookup_conn s cn of
        Some c \<Rightarrow>
          (let s1 = delete_conn c s;
               s2 = s1\<lparr>conns_cns := map_option (insert newcn) (conns_cns s1)\<rparr>
           in Inr (cn_Close c s2))
      | None \<Rightarrow>
          if list_closed s then Inr (cn_Close newcn s)
          else Inl (Panic ''conn not found in the list''))"

subsection \<open>connPool\<close>

definition closed :: "connPool \<Rightarrow> bool" where
  "closed s = closed_flag s"

definition isIdle :: "connPool \<Rightarrow> conn \<Rightarrow> bool" where
  "isIdle s cn = (IdleTimeout s > 0 \<and> now s - UsedAt s cn > IdleTimeout s)"

definition storeLastErr :: "string \<Rightarrow> connPool \<Rightarrow> connPool" where
  "storeLastErr err s = s\<lparr>lastErr := Some err\<rparr>"

definition loadLastErr :: "connPool \<Rightarrow> string" where
  "loadLastErr s = (case lastErr s of Some v \<Rightarrow> v | None \<Rightarrow> '''')"

definition Printf :: "string \<Rightarrow> connPool \<Rightarrow> connPool" where
  "Printf line s = s\<lparr>logs := logs s @ [line]\<rparr>"

definition new :: "connPool \<Rightarrow> (error + conn) \<times> connPool" where
  "new s =
     (let s1 = s\<lparr>nlimit := nlimit s + 1\<rparr> in
      if rl s (nlimit s) then (Inl (errTooFast (loadLastErr s1)), s1)
      else
        (let s2 = s1\<lparr>ndial := ndial s1 + 1\<rparr> in
         case dialer s (ndial s) of
           Some err \<Rightarrow> (Inl err, storeLastErr (Error err) s2)
         | None \<Rightarrow> (Inr (nextptr s2), s2\<lparr>nextptr := nextptr s2 + 1\<rparr>)))"

definition replace :: "conn option \<Rightarrow> connPool \<Rightarrow> fault + ((error + conn) \<times> connPool)" where
  "replace cn s =
     (case new s of
        (Inl err, s1) \<Rightarrow>
          (case list_Remove cn s1 of
             Inl f \<Rightarrow> Inl f
           | Inr (_, s2) \<Rightarrow> Inr (Inl err, s2))
      | (Inr newcn, s1) \<Rightarrow>
          (case list_Replace cn newcn s1 of
             Inl f \<Rightarrow> Inl f
           | Inr (_, s2) \<Rightarrow> Inr (Inr newcn, s2)))"

lemma new_free_cns: "new s = (r, s') \<Longrightarrow> free_cns s' = free_cns s"
  by (auto simp: new_def Let_def storeLastErr_def split: if_splits option.splits)

lemma list_Remove_free_cns: "list_Remove cn s = Inr (r, s') \<Longrightarrow> free_cns s' = free_cns s"
  by (auto simp: list_Remove_def Let_def delete_conn_def cn_Close_def
      split: option.splits if_splits)

lemma list_Replace_free_cns:
  "list_Replace cn newcn s = Inr (r, s') \<Longrightarrow> free_cns s' = free_cns s"
  by (auto simp: list_Replace_def Let_def delete_conn_def cn_Close_def
      split: if_splits option.splits)

lemma replace_free_cns: "replace cn s = Inr (r, s') \<Longrightarrow> free_cns s' = free_cns s"
  unfolding replace_def
  by (auto split: prod.splits sum.splits
      dest!: new_free_cns list_Remove_free_cns list_Replace_free_cns)

lemma Pop_Some_length:
  "Pop s = (Some cn, s') \<Longrightarrow> length (free_cns s') < length (free_cns s)"
  by (auto simp: Pop_def pop_def split: if_splits)

lemma PopWithTimeout_Some_length:
  "PopWithTimeout s = (Some cn, s') \<Longrightarrow> length (free_cns s') < length (free_cns s)"
  by (auto simp: PopWithTimeout_def pop_def split: if_splits)

lemma Printf_free_cns: "free_cns (Printf l s) = free_cns s"
  by (simp add: Printf_def)

text \<open>
  \<^verbatim>\<open>First\<close>: the loop pops until the stack is empty or a connection is returned; an
  idle connection whose replacement fails is dropped and the loop goes on.
\<close>

function First :: "connPool \<Rightarrow> fault + (conn option \<times> connPool)" where
  "First s =
     (case Pop s of
        (None, s1) \<Rightarrow> Inr (None, s1)
      | (Some cn, s1) \<Rightarrow>
          if isIdle s1 cn then
            (case replace (Some cn) s1 of
               Inl f \<Rightarrow> Inl f
             | Inr (Inl err, s2) \<Rightarrow> First (Printf (''pool.replace failed: '' @ Error err) s2)
             | Inr (Inr newcn, s2) \<Rightarrow> Inr (Some newcn, s2))
          else Inr (Some cn, s1))"
  by pat_completeness auto
termination
proof (relation "measure (\<lambda>s. length (free_cns s))")
  show "wf (measure (\<lambda>s. length (free_cns s)))" by simp
next
  fix s :: connPool and x1 x2 x2a x2b y x1a x2c a
  assume "(x1, x2) = Pop s" and "x1 = Some x2a" and "isIdle x2 x2a"
    and "replace (Some x2a) x2 = Inr y" and "(x1a, x2c) = y" and "x1a = Inl a"
  then have "Pop s = (Some x2a, x2)" and "replace (Some x2a) x2 = Inr (Inl a, x2c)"
    by simp_all
  then have "length (free_cns x2c) < length (free_cns s)"
    by (simp add: Pop_Some_length replace_free_cns)
  then show "(Printf (''pool.replace failed: '' @ Error a) x2c, s)
      \<in> measure (\<lambda>s. length (free_cns s))"
    by (simp add: Printf_free_cns)
qed

text \<open>\<^verbatim>\<open>wait\<close>: the same loop over \<^verbatim>\<open>PopWithTimeout\<close>.\<close>

function wait :: "connPool \<Rightarrow> fault + (conn option \<times> connPool)" where
  "wait s =
     (case PopWithTimeout s of
        (None, s1) \<Rightarrow> Inr (None, s1)
      | (Some cn, s1) \<Rightarrow>
          if isIdle s1 cn then
            (case replace (Some cn) s1 of
               Inl f \<Rightarrow> Inl f
             | Inr (Inl err, s2) \<Rightarrow> wait (Printf (''pool.replace failed: '' @ Error err) s2)
             | Inr (Inr newcn, s2) \<Rightarrow> Inr (Some newcn, s2))
          else Inr (Some cn, s1))"
  by pat_completeness auto
termination
proof (relation "measure (\<lambda>s. length (free_cns s))")
  show "wf (measure (\<lambda>s. length (free_cns s)))" by simp
next
  fix s :: connPool and x1 x2 x2a x2b y x1a x2c a
  assume "(x1, x2) = PopWithTimeout s" and "x1 = Some x2a" and "isIdle x2 x2a"
    and "replace (Some x2a) x2 = Inr y" and "(x1a, x2c) = y" and "x1a = Inl a"
  then have "PopWithTimeout s = (Some x2a, x2)"
    and "replace (Some x2a) x2 = Inr (Inl a, x2c)"
    by simp_all
  then have "length (free_cns x2c) < length (free_cns s)"
    by (simp add: PopWithTimeout_Some_length replace_free_cns)
  then show "(Printf (''pool.replace failed: '' @ Error a) x2c, s)
      \<in> measure (\<lambda>s. length (free_cns s))"
    by (simp add: Printf_free_cns)
qed

text \<open>
  \<^verbatim>\<open>Get\<close> returns \<^verbatim>\<open>(cn, isNew, err)\<close>, its named results: each starts at its zero
  value and a bare \<^verbatim>\<open>return\<close> returns what they hold then.
\<close>

definition Get :: "connPool \<Rightarrow> fault + ((conn option \<times> bool \<times> error option) \<times> connPool)" where
  "Get s =
     (if closed s then Inr ((None, False, Some errClosed), s)
      else
        (let s1 = s\<lparr>Requests := Requests s + 1\<rparr> in
         case First s1 of
           Inl f \<Rightarrow> Inl f
         | Inr (Some cn, s2) \<Rightarrow> Inr ((Some cn, False, None), s2\<lparr>Hits := Hits s2 + 1\<rparr>)
         | Inr (None, s2) \<Rightarrow>
             (case Reserve s2 of
                (True, s3) \<Rightarrow>
                  (case new s3 of
                     (Inl err, s4) \<Rightarrow>
                       (case list_Remove None s4 of
                          Inl f \<Rightarrow> Inl f
                        | Inr (_, s5) \<Rightarrow> Inr ((None, True, Some err), s5))
                   | (Inr cn, s4) \<Rightarrow>
                       (case Add cn s4 of
                          Inl f \<Rightarrow> Inl f
                        | Inr s5 \<Rightarrow> Inr ((Some cn, True, None), s5)))
              | (False, s3) \<Rightarrow>
                  (let s4 = s3\<lparr>Waits := Waits s3 + 1\<rparr> in
                   case wait s4 of
                     Inl f \<Rightarrow> Inl f
                   | Inr (Some cn, s5) \<Rightarrow> Inr ((Some cn, False, None), s5)
                   | Inr (None, s5) \<Rightarrow>
                       Inr ((None, False, Some errPoolTimeout),
                            s5\<lparr>Timeouts := Timeouts s5 + 1\<rparr>)))))"

text \<open>\<^verbatim>\<open>reason.Error()\<close> on a nil error, like \<^verbatim>\<open>cn.rd\<close> on a nil connection, panics.\<close>

definition Remove :: "conn option \<Rightarrow> error option \<Rightarrow> connPool \<Rightarrow> fault + (error option \<times> connPool)" where
  "Remove cn reason s =
     (case reason of
        None \<Rightarrow> Inl (Panic ''nil pointer dereference'')
      | Some r \<Rightarrow>
          (let s1 = storeLastErr (Error r) s in
           case replace cn s1 of
             Inl f \<Rightarrow> Inl f
           | Inr (Inl err, s2) \<Rightarrow> Inr (Some err, s2)
           | Inr (Inr newcn, s2) \<Rightarrow>
               (case Push newcn s2 of
                  Inl f \<Rightarrow> Inl f
                | Inr s3 \<Rightarrow> Inr (None, s3))))"

definition Put :: "conn option \<Rightarrow> connPool \<Rightarrow> fault + (error option \<times> connPool)" where
  "Put cn s =
     (case cn of
        None \<Rightarrow> Inl (Panic ''nil pointer dereference'')
      | Some c \<Rightarrow>
          if rd s c \<noteq> [] then
            (let err = errUnread (rd s c);
                 s1 = Printf (Error err) s
             in Remove cn (Some err) s1)
          else
            (case Push c s of
               Inl f \<Rightarrow> Inl f
             | Inr s1 \<Rightarrow> Inr (None, s1)))"

definition Len :: "connPool \<Rightarrow> int" where
  "Len s = list_Len s"

definition FreeLen :: "connPool \<Rightarrow> int" where
  "FreeLen s = stack_Len s"

definition Stats :: "connPool \<Rightarrow> PoolStats" where
  "Stats s =
     \<lparr>st_Requests = Requests s, st_Hits = Hits s, st_Waits = Waits s,
      st_Timeouts = Timeouts s, st_TotalConns = word_of_int (Len s),
      st_FreeConns = word_of_int (FreeLen s)\<rparr>"

lemma wait_Some_length:
  "wait s = Inr (Some cn, s') \<Longrightarrow> length (free_cns s') < length (free_cns s)"
proof (induction s rule: wait.induct)
  case (1 s)
  show ?case
  proof (cases "PopWithTimeout s")
    case (Pair r s1)
    show ?thesis
    proof (cases r)
      case None
      with Pair "1.prems" show ?thesis by simp
    next
      case (Some c)
      with Pair have p: "length (free_cns s1) < length (free_cns s)"
        by (simp add: PopWithTimeout_Some_length)
      show ?thesis
      proof (cases "isIdle s1 c")
        case False
        with Pair Some "1.prems" p show ?thesis by simp
      next
        case True
        show ?thesis
        proof (cases "replace (Some c) s1")
          case (Inl f)
          with Pair Some True "1.prems" show ?thesis by simp
        next
          case (Inr y)
          obtain r2 s2 where y: "y = (r2, s2)" by (cases y)
          with Inr have f: "free_cns s2 = free_cns s1" by (simp add: replace_free_cns)
          show ?thesis
          proof (cases r2)
            case (Inr newcn)
            with Pair Some True \<open>replace (Some c) s1 = Inr y\<close> y "1.prems" p f
            show ?thesis by simp
          next
            case (Inl err)
            let ?s3 = "Printf (''pool.replace failed: '' @ Error err) s2"
            from Pair Some True \<open>replace (Some c) s1 = Inr y\<close> y Inl "1.prems"
            have w: "wait ?s3 = Inr (Some cn, s')" by simp
            have "length (free_cns s') < length (free_cns ?s3)"
              by (rule "1.IH" [OF Pair [symmetric] Some True
                    \<open>replace (Some c) s1 = Inr y\<close> y [symmetric] Inl w])
            with p f show ?thesis by (simp add: Printf_free_cns)
          qed
        qed
      qed
    qed
  qed
qed

text \<open>
  \<^verbatim>\<open>Close\<close>, first the loop that waits for the free connections, \<^verbatim>\<open>i\<close> being its
  counter, then \<^verbatim>\<open>connList.Close\<close>. The \<^verbatim>\<open>range\<close> over the map visits its keys in an
  order the runtime chooses: \<open>order\<close> is that order, the keys of the map listed once
  each.
\<close>

function drain :: "int \<Rightarrow> connPool \<Rightarrow> fault + connPool" where
  "drain i s =
     (if i < Len s then
        (case wait s of
           Inl f \<Rightarrow> Inl f
         | Inr (None, s1) \<Rightarrow> Inr s1
         | Inr (Some cn, s1) \<Rightarrow> drain (i + 1) s1)
      else Inr s)"
  by pat_completeness auto
termination
  by (relation "measure (\<lambda>(i, s). length (free_cns s))") (auto simp: wait_Some_length)

fun close_all :: "conn list \<Rightarrow> error option \<Rightarrow> connPool \<Rightarrow> error option \<times> connPool" where
  "close_all [] retErr s = (retErr, s)"
| "close_all (cn # rest) retErr s =
     (case cn_Close cn s of
        (err, s1) \<Rightarrow>
          close_all rest (if err \<noteq> None then err else retErr) (delete_conn cn s1))"

definition list_Close :: "conn list \<Rightarrow> connPool \<Rightarrow> error option \<times> connPool" where
  "list_Close order s =
     (case (case conns_cns s of None \<Rightarrow> (None, s) | Some m \<Rightarrow> close_all order None s) of
        (retErr, s1) \<Rightarrow> (retErr, s1\<lparr>conns_cns := None, conns_size := 0\<rparr>))"

definition Close :: "conn list \<Rightarrow> connPool \<Rightarrow> fault + (error option \<times> connPool)" where
  "Close order s =
     (if closed_flag s then Inr (Some errClosed, s)
      else
        (case drain 0 (s\<lparr>closed_flag := True\<rparr>) of
           Inl f \<Rightarrow> Inl f
         | Inr s1 \<Rightarrow>
             (case list_Close order s1 of
                (err, s2) \<Rightarrow> Inr (if err \<noteq> None then err else None, s2))))"

text \<open>
  One tick of \<^verbatim>\<open>reaper\<close>: the body of its loop; the flag returned says whether the
  loop goes on.
\<close>

definition reaper_tick :: "connPool \<Rightarrow> fault + (bool \<times> connPool)" where
  "reaper_tick s =
     (if closed s then Inr (False, s)
      else
        (case First s of
           Inl f \<Rightarrow> Inl f
         | Inr (None, s1) \<Rightarrow> Inr (True, s1)
         | Inr (Some cn, s1) \<Rightarrow>
             (case Put (Some cn) s1 of
                Inl f \<Rightarrow> Inl f
              | Inr (_, s2) \<Rightarrow> Inr (True, s2))))"

text \<open>
  \<^verbatim>\<open>newConnPool\<close>, given \<^verbatim>\<open>opt.getPoolSize()\<close>, \<^verbatim>\<open>opt.getIdleTimeout()\<close> and what
  the pool reads from outside. \<^verbatim>\<open>make\<close> panics on a negative capacity, and
  \<^verbatim>\<open>int32(max)\<close> wraps.
\<close>

definition newConnPool ::
  "int \<Rightarrow> int \<Rightarrow> (nat \<Rightarrow> error option) \<Rightarrow> (nat \<Rightarrow> bool) \<Rightarrow> nat \<Rightarrow> int \<Rightarrow> (conn \<Rightarrow> int) \<Rightarrow>
   (conn \<Rightarrow> string) \<Rightarrow> (conn \<Rightarrow> error option) \<Rightarrow> fault + connPool" where
  "newConnPool poolSize idle d l ptr clock used reader cerr =
     (if poolSize < 0 then Inl (Panic ''makeslice: cap out of range'')
      else Inr
        \<lparr>dialer = d, ndial = 0, nextptr = ptr, rl = l, nlimit = 0, IdleTimeout = idle,
         conns_cns = Some {}, conns_size = 0, conns_max = wrap32 poolSize,
         free_cns = [], free_cap = nat poolSize,
         Requests = 0, Hits = 0, Waits = 0, Timeouts = 0,
         closed_flag = False, lastErr = None, now = clock, UsedAt = used,
         rd = reader, closeErr = cerr, closedConns = {}, logs = []\<rparr>)"

section \<open>The sticky pool\<close>

text \<open>
  \<^verbatim>\<open>stickyConnPool\<close> holds a \<^verbatim>\<open>pool\<close>, an interface value: the methods it calls
  (\<^verbatim>\<open>Get\<close>, \<^verbatim>\<open>Put\<close>, \<^verbatim>\<open>Remove\<close>) are the record \<open>'p pool\<close>, given to each
  operation, and the backing pool they work on is the field \<open>sticky_pool\<close>.
\<close>

record 'p pool =
  pool_Get :: "'p \<Rightarrow> fault + ((conn option \<times> bool \<times> error option) \<times> 'p)"
  pool_Put :: "conn option \<Rightarrow> 'p \<Rightarrow> fault + (error option \<times> 'p)"
  pool_Remove :: "conn option \<Rightarrow> error option \<Rightarrow> 'p \<Rightarrow> fault + (error option \<times> 'p)"

record 'p stickyConnPool =
  sticky_pool :: 'p
  reusable :: bool
  sticky_cn :: "conn option"
  sticky_closed :: bool

definition connPool_methods :: "connPool pool" where
  "connPool_methods = \<lparr>pool_Get = Get, pool_Put = Put, pool_Remove = Remove\<rparr>"

definition newStickyConnPool :: "'p \<Rightarrow> bool \<Rightarrow> 'p stickyConnPool" where
  "newStickyConnPool p r =
     \<lparr>sticky_pool = p, reusable = r, sticky_cn = None, sticky_closed = False\<rparr>"

definition sticky_First :: "'p stickyConnPool \<Rightarrow> conn option" where
  "sticky_First s = sticky_cn s"

definition sticky_Get ::
  "'p pool \<Rightarrow> 'p stickyConnPool \<Rightarrow>
   fault + ((conn option \<times> bool \<times> error option) \<times> 'p stickyConnPool)" where
  "sticky_Get P s =
     (if sticky_closed s then Inr ((None, False, Some errClosed), s)
      else if sticky_cn s \<noteq> None then Inr ((sticky_cn s, False, None), s)
      else
        (case pool_Get P (sticky_pool s) of
           Inl f \<Rightarrow> Inl f
         | Inr ((cn, isNew, err), p') \<Rightarrow>
             if err \<noteq> None then Inr ((cn, isNew, err), s\<lparr>sticky_pool := p'\<rparr>)
             else Inr ((cn, isNew, err), s\<lparr>sticky_pool := p', sticky_cn := cn\<rparr>)))"

definition sticky_put ::
  "'p pool \<Rightarrow> 'p stickyConnPool \<Rightarrow> fault + (error option \<times> 'p stickyConnPool)" where
  "sticky_put P s =
     (case pool_Put P (sticky_cn s) (sticky_pool s) of
        Inl f \<Rightarrow> Inl f
      | Inr (err, p') \<Rightarrow> Inr (err, s\<lparr>sticky_pool := p', sticky_cn := None\<rparr>))"

definition sticky_Put ::
  "'p pool \<Rightarrow> conn option \<Rightarrow> 'p stickyConnPool \<Rightarrow> fault + (error option \<times> 'p stickyConnPool)" where
  "sticky_Put P cn s =
     (if sticky_closed s then Inr (Some errClosed, s)
      else if sticky_cn s \<noteq> cn then Inl (Panic ''p.cn != cn'')
      else Inr (None, s))"

definition sticky_remove ::
  "'p pool \<Rightarrow> error option \<Rightarrow> 'p stickyConnPool \<Rightarrow> fault + (error option \<times> 'p stickyConnPool)" where
  "sticky_remove P reason s =
     (case pool_Remove P (sticky_cn s) reason (sticky_pool s) of
        Inl f \<Rightarrow> Inl f
      | Inr (err, p') \<Rightarrow> Inr (err, s\<lparr>sticky_pool := p', sticky_cn := None\<rparr>))"

definition sticky_Remove ::
  "'p pool \<Rightarrow> conn option \<Rightarrow> error option \<Rightarrow> 'p stickyConnPool \<Rightarrow>
   fault + (error option \<times> 'p stickyConnPool)" where
  "sticky_Remove P cn reason s =
     (if sticky_closed s then Inr (Some errClosed, s)
      else if sticky_cn s = None then Inl (Panic ''p.cn == nil'')
      else if cn \<noteq> None \<and> sticky_cn s \<noteq> cn then Inl (Panic ''p.cn != cn'')
      else sticky_remove P reason s)"

definition sticky_Len :: "'p stickyConnPool \<Rightarrow> int" where
  "sticky_Len s = (if sticky_cn s = None then 0 else 1)"

definition sticky_FreeLen :: "'p stickyConnPool \<Rightarrow> int" where
  "sticky_FreeLen s = (if sticky_cn s = None then 1 else 0)"

definition sticky_Close ::
  "'p pool \<Rightarrow> 'p stickyConnPool \<Rightarrow> fault + (error option \<times> 'p stickyConnPool)" where
  "sticky_Close P s =
     (if sticky_closed s then Inr (Some errClosed, s)
      else
        (let s1 = s\<lparr>sticky_closed := True\<rparr> in
         if sticky_cn s1 \<noteq> None then
           (if reusable s1 then sticky_put P s1
            else sticky_remove P (Some errSticky) s1)
         else Inr (None, s1)))"

text \<open>Pools to run the operations on.\<close>

definition pool0 :: connPool where
  "pool0 =
     \<lparr>dialer = (\<lambda>n. None), ndial = 0, nextptr = 1, rl = (\<lambda>n. False), nlimit = 0,
      IdleTimeout = 0, conns_cns = Some {}, conns_size = 0, conns_max = 2,
      free_cns = [], free_cap = 2, Requests = 0, Hits = 0, Waits = 0, Timeouts = 0,
      closed_flag = False, lastErr = None, now = 0, UsedAt = (\<lambda>c. 0),
      rd = (\<lambda>c. []), closeErr = (\<lambda>c. None), closedConns = {}, logs = []\<rparr>"

definition pool1 :: connPool where
  "pool1 =
     pool0\<lparr>nextptr := 2, ndial := 1, nlimit := 1, conns_cns := Some {1}, conns_size := 1,
       Requests := 1\<rparr>"

definition sticky1 :: "connPool stickyConnPool" where
  "sticky1 =
     \<lparr>sticky_pool = pool1, reusable = True, sticky_cn = Some 1, sticky_closed = False\<rparr>"

declare First.simps [simp del] wait.simps [simp del] drain.simps [simp del]

section \<open>The sticky pool after Close\<close>

lemma Get_pool0: "Get pool0 = Inr ((Some 1, True, None), pool1)"
  by (simp add: Get_def closed_def pool0_def pool1_def First.simps Pop_def Reserve_def
      wrap32_def new_def Let_def Add_def)

lemma Put_pool1: "Put (Some 1) pool1 = Inr (None, pool1\<lparr>free_cns := [1]\<rparr>)"
  by (simp add: Put_def pool1_def pool0_def Push_def)

lemma Remove_pool1:
  "Remove (Some 1) (Some errSticky) pool1 =
     Inr (None, pool1\<lparr>ndial := 2, nextptr := 3, nlimit := 2, conns_cns := Some {2},
       free_cns := [2], lastErr := Some ''redis: sticky not reusable connection'',
       closedConns := {1}\<rparr>)"
  by (simp add: Remove_def replace_def new_def list_Replace_def lookup_conn_def has_conn_def
      delete_conn_def cn_Close_def storeLastErr_def Push_def Let_def pool1_def pool0_def)

text \<open>
  C9. The first \<^verbatim>\<open>Close\<close> of a sticky pool that holds a connection \<open>c\<close> hands \<open>c\<close> to
  the backing pool, through its \<^verbatim>\<open>Put\<close> when \<open>reusable\<close> is set and through its
  \<^verbatim>\<open>Remove\<close> (with the reason "redis: sticky not reusable connection") otherwise.
  When that call returns, \<^verbatim>\<open>Close\<close> returns its error, the pool holds no connection
  any more and is closed; a second \<^verbatim>\<open>Close\<close> returns \<open>errClosed\<close> and leaves the sticky
  pool and the backing pool as they are.
\<close>

theorem sticky_Close_releases_once:
  assumes "\<not> sticky_closed s" and "sticky_cn s = Some c"
    and "(if reusable s then pool_Put P (Some c) (sticky_pool s)
          else pool_Remove P (Some c) (Some errSticky) (sticky_pool s)) = Inr (err, p')"
  shows "sticky_Close P s =
           Inr (err, s\<lparr>sticky_pool := p', sticky_cn := None, sticky_closed := True\<rparr>) \<and>
         sticky_Close P (s\<lparr>sticky_pool := p', sticky_cn := None, sticky_closed := True\<rparr>) =
           Inr (Some errClosed,
                s\<lparr>sticky_pool := p', sticky_cn := None, sticky_closed := True\<rparr>)"
  using assms
  by (auto simp: sticky_Close_def sticky_put_def sticky_remove_def Let_def split: if_splits)

theorem sticky_Close_releases_once_witness:
  "sticky_Close connPool_methods sticky1 =
     Inr (None, sticky1\<lparr>sticky_pool := pool1\<lparr>free_cns := [1]\<rparr>, sticky_cn := None,
                  sticky_closed := True\<rparr>) \<and>
   sticky_Close connPool_methods
       (sticky1\<lparr>sticky_pool := pool1\<lparr>free_cns := [1]\<rparr>, sticky_cn := None,
                  sticky_closed := True\<rparr>) =
     Inr (Some errClosed,
          sticky1\<lparr>sticky_pool := pool1\<lparr>free_cns := [1]\<rparr>, sticky_cn := None,
                  sticky_closed := True\<rparr>) \<and>
   map_sum id (\<lambda>(e, s). (e, free_cns (sticky_pool s), conns_cns (sticky_pool s), sticky_cn s,
                             sticky_closed s))
       (sticky_Close connPool_methods (sticky1\<lparr>reusable := False\<rparr>)) =
     Inr (None, [2], Some {2}, None, True)"
proof -
  have a: "\<not> sticky_closed sticky1" and b: "sticky_cn sticky1 = Some 1"
    by (simp_all add: sticky1_def)
  have c: "(if reusable sticky1 then pool_Put connPool_methods (Some 1) (sticky_pool sticky1)
            else pool_Remove connPool_methods (Some 1) (Some errSticky) (sticky_pool sticky1))
           = Inr (None, pool1\<lparr>free_cns := [1]\<rparr>)"
    using Put_pool1 by (simp add: sticky1_def connPool_methods_def)
  have a': "\<not> sticky_closed (sticky1\<lparr>reusable := False\<rparr>)"
    and b': "sticky_cn (sticky1\<lparr>reusable := False\<rparr>) = Some 1"
    by (simp_all add: sticky1_def)
  have c': "(if reusable (sticky1\<lparr>reusable := False\<rparr>)
             then pool_Put connPool_methods (Some 1) (sticky_pool (sticky1\<lparr>reusable := False\<rparr>))
             else pool_Remove connPool_methods (Some 1) (Some errSticky)
                    (sticky_pool (sticky1\<lparr>reusable := False\<rparr>)))
           = Inr (None, pool1\<lparr>ndial := 2, nextptr := 3, nlimit := 2, conns_cns := Some {2},
               free_cns := [2], lastErr := Some ''redis: sticky not reusable connection'',
               closedConns := {1}\<rparr>)"
    using Remove_pool1 by (simp add: sticky1_def connPool_methods_def)
  show ?thesis
    using sticky_Close_releases_once [OF a b c] sticky_Close_releases_once [OF a' b' c']
    by simp
qed

text \<open>
  C10. On a closed sticky pool \<^verbatim>\<open>Put\<close> and \<^verbatim>\<open>Remove\<close> return \<open>errClosed\<close> for every
  connection argument (nil or not, the one held or another) and every reason, and
  change nothing: the check of \<open>closed\<close> comes before the comparison with the
  connection held, so neither panics.
\<close>

theorem sticky_closed_Put_Remove:
  "sticky_closed s \<Longrightarrow>
     sticky_Put P cn s = Inr (Some errClosed, s) \<and>
     sticky_Remove P cn reason s = Inr (Some errClosed, s)"
  by (simp add: sticky_Put_def sticky_Remove_def)

theorem sticky_closed_Put_Remove_witness:
  "sticky_closed (sticky1\<lparr>sticky_closed := True\<rparr>) \<and>
   sticky_Put connPool_methods (Some 7) (sticky1\<lparr>sticky_closed := True\<rparr>)
     = Inr (Some errClosed, sticky1\<lparr>sticky_closed := True\<rparr>) \<and>
   sticky_Remove connPool_methods None (Some errSticky) (sticky1\<lparr>sticky_closed := True\<rparr>)
     = Inr (Some errClosed, sticky1\<lparr>sticky_closed := True\<rparr>) \<and>
   sticky_Put connPool_methods (Some 7) sticky1 = Inl (Panic ''p.cn != cn'')"
  using sticky_closed_Put_Remove [of "sticky1\<lparr>sticky_closed := True\<rparr>" connPool_methods
      "Some 7" "Some errSticky"]
    sticky_closed_Put_Remove [of "sticky1\<lparr>sticky_closed := True\<rparr>" connPool_methods
      None "Some errSticky"]
  by (simp add: sticky1_def sticky_Put_def)

end
